theory Spec2Isabelle
  imports Main
begin

section \<open>JavaScript values\<close>

text \<open>
  The component \<^verbatim>\<open>Profile.jsx\<close> handles values that come from three places: JSON bodies
  of HTTP responses, the decoded payload of the stored token, and the values of the form
  fields (strings, \<^verbatim>\<open>null\<close> or a \<^verbatim>\<open>File\<close>). One datatype covers them.

  \<^item> Numbers are the integers and \<^verbatim>\<open>NaN\<close>; fractions and infinities do not occur in what the
    component computes (status codes, byte sizes, years, identifiers).
  \<^item> Objects, arrays and files carry an identity (a natural number): \<^verbatim>\<open>===\<close> on them compares
    identities, never contents. Nothing in the component mutates an object, so the contents
    travel with the identity.
  \<^item> Strings are lists of characters.
  \<^item> Output to the console is not part of the model.
\<close>

record js_file =
  file_id :: nat
  size_file :: nat
  type_file :: string

datatype jsval =
    JUndefined
  | JNull
  | JBool bool
  | JNum int
  | JNaN
  | JStr string
  | JObj nat "(string \<times> jsval) list"
  | JArr nat "jsval list"
  | JFile js_file

type_synonym fields = "(string \<times> jsval) list"

text \<open>Truthiness, as \<^verbatim>\<open>if (v)\<close>, \<^verbatim>\<open>!v\<close>, \<^verbatim>\<open>a || b\<close> and \<^verbatim>\<open>c ? a : b\<close> test it.\<close>

fun truthy :: "jsval \<Rightarrow> bool" where
  "truthy JUndefined = False"
| "truthy JNull = False"
| "truthy (JBool b) = b"
| "truthy (JNum n) = (n \<noteq> 0)"
| "truthy JNaN = False"
| "truthy (JStr s) = (s \<noteq> [])"
| "truthy (JObj i fs) = True"
| "truthy (JArr i xs) = True"
| "truthy (JFile f) = True"

text \<open>\<^verbatim>\<open>a || b\<close>\<close>

definition js_or :: "jsval \<Rightarrow> jsval \<Rightarrow> jsval" where
  "js_or a b = (if truthy a then a else b)"

text \<open>\<^verbatim>\<open>typeof v\<close>\<close>

fun typeof :: "jsval \<Rightarrow> string" where
  "typeof JUndefined = ''undefined''"
| "typeof JNull = ''object''"
| "typeof (JBool b) = ''boolean''"
| "typeof (JNum n) = ''number''"
| "typeof JNaN = ''number''"
| "typeof (JStr s) = ''string''"
| "typeof (JObj i fs) = ''object''"
| "typeof (JArr i xs) = ''object''"
| "typeof (JFile f) = ''object''"

fun nullish :: "jsval \<Rightarrow> bool" where
  "nullish JUndefined = True"
| "nullish JNull = True"
| "nullish v = False"

text \<open>
  Reading a property of an object given by its fields: the value stored under the key, or
  \<^verbatim>\<open>undefined\<close>. The prototype is not consulted, so a key named like a member of
  \<^verbatim>\<open>Object.prototype\<close> reads as \<^verbatim>\<open>undefined\<close> where the object has no field of that
  name.
\<close>

definition own_prop :: "fields \<Rightarrow> string \<Rightarrow> jsval" where
  "own_prop fs k = (case map_of fs k of None \<Rightarrow> JUndefined | Some v \<Rightarrow> v)"

text \<open>
  \<^verbatim>\<open>v.k\<close> on a value that is neither \<^verbatim>\<open>null\<close> nor \<^verbatim>\<open>undefined\<close>. The component reads the
  properties \<^verbatim>\<open>data\<close>, \<^verbatim>\<open>therapist_id\<close>, \<^verbatim>\<open>image_path\<close>, \<^verbatim>\<open>message\<close>, \<^verbatim>\<open>error\<close>, the profile
  fields, and \<^verbatim>\<open>size\<close> and \<^verbatim>\<open>type\<close> of a file; none of them exists on the prototype of a
  string, number, boolean or array.
\<close>

fun get_prop :: "jsval \<Rightarrow> string \<Rightarrow> jsval" where
  "get_prop (JObj i fs) k = own_prop fs k"
| "get_prop (JFile f) k =
     (if k = ''size'' then JNum (int (size_file f))
      else if k = ''type'' then JStr (type_file f)
      else JUndefined)"
| "get_prop (JStr s) k = (if k = ''length'' then JNum (int (length s)) else JUndefined)"
| "get_prop (JArr i xs) k = (if k = ''length'' then JNum (int (length xs)) else JUndefined)"
| "get_prop v k = JUndefined"

text \<open>\<^verbatim>\<open>v?.k\<close>\<close>

definition opt_member :: "jsval \<Rightarrow> string \<Rightarrow> jsval" where
  "opt_member v k = (if nullish v then JUndefined else get_prop v k)"

text \<open>\<^verbatim>\<open>a === b\<close>: \<^verbatim>\<open>NaN\<close> equals nothing, objects are compared by identity.\<close>

fun strict_eq :: "jsval \<Rightarrow> jsval \<Rightarrow> bool" where
  "strict_eq JUndefined b = (b = JUndefined)"
| "strict_eq JNull b = (b = JNull)"
| "strict_eq (JBool x) b = (b = JBool x)"
| "strict_eq (JNum x) b = (b = JNum x)"
| "strict_eq JNaN b = False"
| "strict_eq (JStr x) b = (b = JStr x)"
| "strict_eq (JObj i fs) b = (case b of JObj j gs \<Rightarrow> i = j | _ \<Rightarrow> False)"
| "strict_eq (JArr i xs) b = (case b of JArr j ys \<Rightarrow> i = j | _ \<Rightarrow> False)"
| "strict_eq (JFile f) b = (case b of JFile g \<Rightarrow> file_id f = file_id g | _ \<Rightarrow> False)"

subsection \<open>Conversion to a string\<close>

definition digit_char :: "nat \<Rightarrow> char" where
  "digit_char d = char_of (48 + d)"

function show_nat :: "nat \<Rightarrow> string" where
  "show_nat n = (if n < 10 then [digit_char n] else show_nat (n div 10) @ [digit_char (n mod 10)])"
  by pat_completeness auto
termination
  by (relation "measure id") auto

definition show_int :: "int \<Rightarrow> string" where
  "show_int i = (if i < 0 then CHR ''-'' # show_nat (nat (- i)) else show_nat (nat i))"

fun join_comma :: "string list \<Rightarrow> string" where
  "join_comma [] = []"
| "join_comma [s] = s"
| "join_comma (s # t # ss) = s @ '','' @ join_comma (t # ss)"

text \<open>
  \<^verbatim>\<open>String(v)\<close>, as a template literal and \<^verbatim>\<open>v.toString()\<close> compute it. Objects are JSON data
  and are taken not to shadow \<^verbatim>\<open>toString\<close>. An array joins its elements, with \<^verbatim>\<open>null\<close> and
  \<^verbatim>\<open>undefined\<close> as the empty string. A number is printed with all its digits; the
  exponent notation that JavaScript uses for large numbers is not modelled.
\<close>

fun to_string :: "jsval \<Rightarrow> string" where
  "to_string JUndefined = ''undefined''"
| "to_string JNull = ''null''"
| "to_string (JBool b) = (if b then ''true'' else ''false'')"
| "to_string (JNum n) = show_int n"
| "to_string JNaN = ''NaN''"
| "to_string (JStr s) = s"
| "to_string (JObj i fs) = ''[object Object]''"
| "to_string (JArr i xs) =
     join_comma (map (\<lambda>x. if nullish x then [] else to_string x) xs)"
| "to_string (JFile f) = ''[object File]''"

section \<open>Change detection\<close>

text \<open>
  \<^verbatim>\<open>
  const hasChanges = (current, initial) => {
    const keys = Object.keys(current);
    for (const key of keys) {
      if (key === 'image') {
        if (current[key] !== initial[key]) { return true; }
      } else if (current[key] !== initial[key]) { return true; }
    }
    return false;
  };
  \<close>
  An object is given by its list of fields; \<^verbatim>\<open>Object.keys\<close> lists the keys of the fields.
\<close>

definition object_keys :: "fields \<Rightarrow> string list" where
  "object_keys fs = remdups (map fst fs)"

fun hasChanges_loop :: "string list \<Rightarrow> fields \<Rightarrow> fields \<Rightarrow> bool" where
  "hasChanges_loop [] current initial = False"
| "hasChanges_loop (key # keys) current initial =
     (if key = ''image'' then
        (if \<not> strict_eq (own_prop current key) (own_prop initial key) then True
         else hasChanges_loop keys current initial)
      else if \<not> strict_eq (own_prop current key) (own_prop initial key) then True
      else hasChanges_loop keys current initial)"

definition hasChanges :: "fields \<Rightarrow> fields \<Rightarrow> bool" where
  "hasChanges current initial = hasChanges_loop (object_keys current) current initial"

section \<open>Errors and HTTP\<close>

record response =
  resp_status :: int
  resp_data :: jsval

text \<open>
  What the component throws and catches: \<^verbatim>\<open>new Error(message)\<close>, a \<^verbatim>\<open>TypeError\<close> of the
  runtime (a property read on \<^verbatim>\<open>null\<close> or \<^verbatim>\<open>undefined\<close>), and the error with which an axios
  call rejects, which carries the response when there was one.
\<close>

datatype js_error =
    Error string
  | TypeError string
  | AxiosError string "response option"

text \<open>\<^verbatim>\<open>error.message\<close>\<close>

fun error_message :: "js_error \<Rightarrow> string" where
  "error_message (Error m) = m"
| "error_message (TypeError m) = m"
| "error_message (AxiosError m r) = m"

text \<open>\<^verbatim>\<open>error.response?.data?.error\<close>\<close>

fun error_response_data_error :: "js_error \<Rightarrow> jsval" where
  "error_response_data_error (AxiosError m (Some r)) = opt_member (resp_data r) ''error''"
| "error_response_data_error e = JUndefined"

datatype http_method = GET | PUT

record request =
  req_method :: http_method
  req_url :: string
  req_headers :: "(string \<times> string) list"
  req_body :: fields

text \<open>
  The remote service is a parameter: it answers a request, given the requests issued before
  it, with a status and a body, or not at all.
\<close>

datatype http_reply = NetworkFailure string | Reply int jsval

type_synonym server = "request list \<Rightarrow> request \<Rightarrow> http_reply"

text \<open>
  An axios call resolves with the response when \<^verbatim>\<open>validateStatus\<close> accepts the status and
  rejects otherwise.
\<close>

definition axios_request :: "(int \<Rightarrow> bool) \<Rightarrow> http_reply \<Rightarrow> js_error + response" where
  "axios_request validateStatus reply =
     (case reply of
        NetworkFailure m \<Rightarrow> Inl (AxiosError m None)
      | Reply s d \<Rightarrow>
          if validateStatus s then Inr \<lparr>resp_status = s, resp_data = d\<rparr>
          else Inl (AxiosError (''Request failed with status code '' @ show_int s)
                     (Some \<lparr>resp_status = s, resp_data = d\<rparr>)))"

text \<open>\<^verbatim>\<open>baseURL: 'http://localhost:5000'\<close>\<close>

definition baseURL :: string where
  "baseURL = ''http://localhost:5000''"

text \<open>\<^verbatim>\<open>localStorage.getItem(key)\<close>: the stored string, or \<^verbatim>\<open>null\<close>.\<close>

definition getItem :: "(string \<rightharpoonup> string) \<Rightarrow> string \<Rightarrow> jsval" where
  "getItem localStorage k = (case localStorage k of None \<Rightarrow> JNull | Some s \<Rightarrow> JStr s)"

section \<open>The state of the panel\<close>

datatype toast = ToastError jsval | ToastSuccess jsval

datatype query_status = Pending | Success | Failed

text \<open>The entry of the shared query cache under the key \<^verbatim>\<open>['therapist', therapistId]\<close>.\<close>

record query =
  q_data :: jsval
  q_status :: query_status
  q_error :: "js_error option"
  q_invalidated :: bool

definition initial_query :: query where
  "initial_query = \<lparr>q_data = JUndefined, q_status = Pending, q_error = None, q_invalidated = False\<rparr>"

text \<open>
  The three \<^verbatim>\<open>useState\<close> cells, the values held by the form, the query cache (keyed by the
  identifier, the second component of the query key), the notifications emitted and the
  requests issued so far. \<open>populated_for\<close> is the value of \<^verbatim>\<open>therapist\<close> at the last run of
  the effect that fills the form.
\<close>

record panel =
  therapistId :: jsval
  imagePreview :: jsval
  initialValues :: fields
  form_values :: fields
  queries :: "jsval \<Rightarrow> query"
  toasts :: "toast list"
  requests :: "request list"
  populated_for :: jsval

definition initial_panel :: panel where
  "initial_panel =
     \<lparr>therapistId = JNull,
      imagePreview = JNull,
      initialValues = [],
      form_values =
        [(''full_name'', JStr []), (''phone'', JStr []), (''email'', JStr []),
         (''address'', JStr []), (''nic_number'', JStr []), (''work_start_year'', JStr []),
         (''image'', JNull)],
      queries = (\<lambda>k. initial_query),
      toasts = [],
      requests = [],
      populated_for = JUndefined\<rparr>"

text \<open>\<^verbatim>\<open>data: therapist\<close> of \<^verbatim>\<open>useQuery\<close>\<close>

definition therapist :: "panel \<Rightarrow> jsval" where
  "therapist st = q_data (queries st (therapistId st))"

section \<open>Identity resolver\<close>

text \<open>
  \<^verbatim>\<open>
  useEffect(() => {
    const token = localStorage.getItem('therapyToken');
    if (token) {
      try {
        const decoded = jwtDecode(token);
        if (decoded?.therapist_id) { setTherapistId(decoded.therapist_id); }
      } catch (error) { setTherapistId(35); }
    } else { setTherapistId(35); }
  }, []);
  \<close>
  \<^verbatim>\<open>jwtDecode\<close> belongs to a library and is a parameter: it returns the decoded payload or
  throws.
\<close>

definition therapistId_effect ::
    "(jsval \<Rightarrow> js_error + jsval) \<Rightarrow> (string \<rightharpoonup> string) \<Rightarrow> panel \<Rightarrow> panel" where
  "therapistId_effect jwtDecode localStorage st =
     (let token = getItem localStorage ''therapyToken'' in
      if truthy token then
        (case jwtDecode token of
           Inr decoded \<Rightarrow>
             if truthy (opt_member decoded ''therapist_id'')
             then st\<lparr>therapistId := get_prop decoded ''therapist_id''\<rparr>
             else st
         | Inl error \<Rightarrow> st\<lparr>therapistId := JNum 35\<rparr>)
      else st\<lparr>therapistId := JNum 35\<rparr>)"

section \<open>Profile loader\<close>

fun is_prefix :: "string \<Rightarrow> string \<Rightarrow> bool" where
  "is_prefix [] s = True"
| "is_prefix (c # cs) [] = False"
| "is_prefix (c # cs) (d # ds) = (c = d \<and> is_prefix cs ds)"

text \<open>\<^verbatim>\<open>s.includes(sub)\<close>\<close>

fun includes_str :: "string \<Rightarrow> string \<Rightarrow> bool" where
  "includes_str [] sub = (sub = [])"
| "includes_str (c # cs) sub = (is_prefix sub (c # cs) \<or> includes_str cs sub)"

text \<open>
  The last part of \<^verbatim>\<open>queryFn\<close>, which accepts a wrapped or a bare payload:
  \<^verbatim>\<open>
  const therapistData = response.data?.data || response.data;
  if (!therapistData || typeof therapistData !== 'object') {
    throw new Error('Invalid response format from server');
  }
  return therapistData;
  \<close>
\<close>

definition normalize_payload :: "jsval \<Rightarrow> js_error + jsval" where
  "normalize_payload response_data =
     (let therapistData = js_or (opt_member response_data ''data'') response_data in
      if \<not> truthy therapistData \<or> typeof therapistData \<noteq> ''object''
      then Inl (Error ''Invalid response format from server'')
      else Inr therapistData)"

text \<open>
  The part of \<^verbatim>\<open>queryFn\<close> after the request has resolved:
  \<^verbatim>\<open>
  if (response.status === 404) { throw new Error('Therapist profile not found'); }
  if (typeof response.data === 'string' && response.data.includes('<!doctype html')) {
    throw new Error('Invalid response: Received HTML from server');
  }
  \<close>
  and then the normalization above.
\<close>

definition read_response :: "response \<Rightarrow> js_error + jsval" where
  "read_response response =
     (if resp_status response = 404 then Inl (Error ''Therapist profile not found'')
      else if typeof (resp_data response) = ''string'' \<and>
              (case resp_data response of JStr s \<Rightarrow> includes_str s ''<!doctype html'' | _ \<Rightarrow> False)
      then Inl (Error ''Invalid response: Received HTML from server'')
      else normalize_payload (resp_data response))"

text \<open>
  \<^verbatim>\<open>
  const response = await api.get(`http://localhost:5000/api/therapists/${therapistId}`, {
    validateStatus: (status) => status < 500,
  });
  \<close>
  The request carries no header of the component's. The \<^verbatim>\<open>catch\<close> of \<^verbatim>\<open>queryFn\<close> rethrows
  what it caught.
\<close>

definition profile_request :: "panel \<Rightarrow> request" where
  "profile_request st =
     \<lparr>req_method = GET,
      req_url = ''http://localhost:5000/api/therapists/'' @ to_string (therapistId st),
      req_headers = [],
      req_body = []\<rparr>"

definition queryFn :: "server \<Rightarrow> panel \<Rightarrow> (js_error + jsval) \<times> panel" where
  "queryFn server st =
     (let req = profile_request st;
          reply = server (requests st) req;
          st' = st\<lparr>requests := requests st @ [req]\<rparr>
      in case axios_request (\<lambda>status. status < 500) reply of
           Inl error \<Rightarrow> (Inl error, st')
         | Inr response \<Rightarrow> (read_response response, st'))"

text \<open>
  The two messages with which the loader reports a body that is not a record.
\<close>

definition invalid_response :: "js_error \<Rightarrow> bool" where
  "invalid_response e =
     (e = Error ''Invalid response: Received HTML from server'' \<or>
      e = Error ''Invalid response format from server'')"

section \<open>Form state holder\<close>

text \<open>
  The body of the effect that fills the form, run when \<^verbatim>\<open>therapist\<close> has changed:
  \<^verbatim>\<open>
  if (therapist) {
    const defaultValues = {
      full_name: therapist.full_name || '',
      phone: therapist.phone || '',
      email: therapist.email || '',
      address: therapist.address || '',
      nic_number: therapist.nic_number || '',
      work_start_year: therapist.work_start_year ? therapist.work_start_year.toString() : '',
      image: null,
    };
    form.reset(defaultValues);
    setInitialValues(defaultValues);
    setImagePreview(therapist.image_path ? `http://localhost:5000/${therapist.image_path}` : null);
  }
  \<close>
\<close>

definition populate_form :: "jsval \<Rightarrow> panel \<Rightarrow> panel" where
  "populate_form therapist_data st =
     (if truthy therapist_data then
        (let defaultValues =
           [(''full_name'', js_or (get_prop therapist_data ''full_name'') (JStr [])),
            (''phone'', js_or (get_prop therapist_data ''phone'') (JStr [])),
            (''email'', js_or (get_prop therapist_data ''email'') (JStr [])),
            (''address'', js_or (get_prop therapist_data ''address'') (JStr [])),
            (''nic_number'', js_or (get_prop therapist_data ''nic_number'') (JStr [])),
            (''work_start_year'',
               if truthy (get_prop therapist_data ''work_start_year'')
               then JStr (to_string (get_prop therapist_data ''work_start_year''))
               else JStr []),
            (''image'', JNull)]
         in st\<lparr>form_values := defaultValues,
               initialValues := defaultValues,
               imagePreview :=
                 (if truthy (get_prop therapist_data ''image_path'')
                  then JStr (''http://localhost:5000/'' @ to_string (get_prop therapist_data ''image_path''))
                  else JNull)\<rparr>)
      else st)"

text \<open>\<^verbatim>\<open>field.onChange(v)\<close> for the field \<open>k\<close> of the form.\<close>

fun set_field :: "string \<Rightarrow> jsval \<Rightarrow> fields \<Rightarrow> fields" where
  "set_field k v [] = [(k, v)]"
| "set_field k v ((k', v') # fs) = (if k = k' then (k, v) # fs else (k', v') # set_field k v fs)"

text \<open>
  \<^verbatim>\<open>
  const handleFieldChange = (fieldName, value) => {
    const currentValues = form.getValues();
    if (hasChanges({ [fieldName]: value }, { [fieldName]: initialValues[fieldName] })) {
      console.log('Field changed:', fieldName, value);
    }
  };
  \<close>
  The call of the updater is commented out in the source; what remains writes to the console.
\<close>

definition handleFieldChange :: "string \<Rightarrow> jsval \<Rightarrow> panel \<Rightarrow> panel" where
  "handleFieldChange fieldName v st =
     (if hasChanges [(fieldName, v)] [(fieldName, own_prop (initialValues st) fieldName)]
      then st else st)"

section \<open>Image selection\<close>

text \<open>
  \<^verbatim>\<open>
  const file = event.target.files[0];
  if (file) {
    if (file.size > 5 * 1024 * 1024) {
      toast.error('Image size must be less than 5MB'); return;
    }
    if (!['image/png', 'image/jpg', 'image/jpeg', 'image/gif'].includes(file.type)) {
      toast.error('Only PNG, JPG, JPEG, and GIF images are allowed'); return;
    }
    field.onChange(file);
    const previewUrl = URL.createObjectURL(file);
    setImagePreview(previewUrl);
  } else {
    field.onChange(null);
    setImagePreview(therapist?.image_path ? `http://localhost:5000/${therapist.image_path}` : null);
  }
  \<close>
  The selected file is \<open>Some f\<close>, an empty selection is \<open>None\<close>. \<^verbatim>\<open>URL.createObjectURL\<close>
  belongs to the browser and is a parameter.
\<close>

definition toast_error :: "jsval \<Rightarrow> panel \<Rightarrow> panel" where
  "toast_error m st = st\<lparr>toasts := toasts st @ [ToastError m]\<rparr>"

definition toast_success :: "jsval \<Rightarrow> panel \<Rightarrow> panel" where
  "toast_success m st = st\<lparr>toasts := toasts st @ [ToastSuccess m]\<rparr>"

definition handleImageChange :: "(js_file \<Rightarrow> string) \<Rightarrow> js_file option \<Rightarrow> panel \<Rightarrow> panel" where
  "handleImageChange createObjectURL file st =
     (case file of
        Some f \<Rightarrow>
          if size_file f > 5 * 1024 * 1024
          then toast_error (JStr ''Image size must be less than 5MB'') st
          else if type_file f \<notin> set [''image/png'', ''image/jpg'', ''image/jpeg'', ''image/gif'']
          then toast_error (JStr ''Only PNG, JPG, JPEG, and GIF images are allowed'') st
          else st\<lparr>form_values := set_field ''image'' (JFile f) (form_values st),
                  imagePreview := JStr (createObjectURL f)\<rparr>
      | None \<Rightarrow>
          st\<lparr>form_values := set_field ''image'' JNull (form_values st),
              imagePreview :=
                (if truthy (opt_member (therapist st) ''image_path'')
                 then JStr (''http://localhost:5000/'' @ to_string (get_prop (therapist st) ''image_path''))
                 else JNull)\<rparr>)"

section \<open>Profile updater\<close>

text \<open>
  \<^verbatim>\<open>formData.append(name, value)\<close>: a file is kept, any other value is converted to a string.
\<close>

definition formData_append :: "string \<Rightarrow> jsval \<Rightarrow> fields \<Rightarrow> fields" where
  "formData_append k v formData =
     formData @ [(k, case v of JFile f \<Rightarrow> JFile f | _ \<Rightarrow> JStr (to_string v))]"

text \<open>\<^verbatim>\<open>if (data.k) formData.append('k', data.k);\<close>\<close>

definition append_present :: "fields \<Rightarrow> string \<Rightarrow> fields \<Rightarrow> fields" where
  "append_present d k formData =
     (if truthy (own_prop d k) then formData_append k (own_prop d k) formData else formData)"

definition update_request :: "jsval \<Rightarrow> fields \<Rightarrow> panel \<Rightarrow> request" where
  "update_request token d st =
     \<lparr>req_method = PUT,
      req_url = baseURL @ ''/api/therapists/'' @ to_string (therapistId st),
      req_headers =
        [(''Content-Type'', ''multipart/form-data''),
         (''Authorization'', ''Bearer '' @ to_string token)],
      req_body =
        append_present d ''image''
          (append_present d ''work_start_year''
            (append_present d ''nic_number''
              (append_present d ''address''
                (append_present d ''email''
                  (append_present d ''phone''
                    (append_present d ''full_name'' []))))))\<rparr>"

text \<open>
  \<^verbatim>\<open>
  mutationFn: async (data) => {
    const token = localStorage.getItem('therapyToken');
    if (!token) { throw new Error('Authentication token missing'); }
    const formData = new FormData();
    ...
    const response = await api.put(`/api/therapists/${therapistId}`, formData, {
      headers: { 'Content-Type': 'multipart/form-data', Authorization: `Bearer ${token}` },
      validateStatus: (status) => status >= 200 && status < 300,
    });
    return response.data;
  }
  \<close>
  The fields submitted are the object \<open>d\<close>. The \<^verbatim>\<open>catch\<close> rethrows what it caught.
\<close>

definition mutationFn ::
    "server \<Rightarrow> (string \<rightharpoonup> string) \<Rightarrow> fields \<Rightarrow> panel \<Rightarrow> (js_error + jsval) \<times> panel" where
  "mutationFn server localStorage d st =
     (let token = getItem localStorage ''therapyToken'' in
      if \<not> truthy token then (Inl (Error ''Authentication token missing''), st)
      else
        (let req = update_request token d st;
             reply = server (requests st) req;
             st' = st\<lparr>requests := requests st @ [req]\<rparr>
         in case axios_request (\<lambda>status. status \<ge> 200 \<and> status < 300) reply of
              Inl error \<Rightarrow> (Inl error, st')
            | Inr response \<Rightarrow> (Inr (resp_data response), st')))"

text \<open>
  \<^verbatim>\<open>queryClient.setQueryData(['therapist', id], v)\<close> stores \<open>v\<close> as the data of the entry,
  unless \<open>v\<close> is \<^verbatim>\<open>undefined\<close>; \<^verbatim>\<open>queryClient.invalidateQueries(['therapist', id])\<close>
  marks the entry as out of date. Both belong to the query library.
\<close>

definition setQueryData :: "jsval \<Rightarrow> jsval \<Rightarrow> panel \<Rightarrow> panel" where
  "setQueryData k v st =
     (if v = JUndefined then st
      else st\<lparr>queries := (queries st)
             (k := \<lparr>q_data = v, q_status = Success, q_error = None, q_invalidated = False\<rparr>)\<rparr>)"

definition invalidateQueries :: "jsval \<Rightarrow> panel \<Rightarrow> panel" where
  "invalidateQueries k st =
     st\<lparr>queries := (queries st)(k := (queries st k)\<lparr>q_invalidated := True\<rparr>)\<rparr>"

text \<open>
  \<^verbatim>\<open>
  onSuccess: (data) => {
    const updatedTherapist = data?.data || data;
    queryClient.setQueryData(['therapist', therapistId], updatedTherapist);
    if (updatedTherapist.image_path) { setImagePreview(`${updatedTherapist.image_path}`); }
    setInitialValues(form.getValues());
    toast.success(data.message || 'Profile updated successfully', {...});
    queryClient.invalidateQueries(['therapist', therapistId]);
  }
  \<close>
  The handler throws a \<^verbatim>\<open>TypeError\<close> where it reads a property of \<^verbatim>\<open>null\<close> or
  \<^verbatim>\<open>undefined\<close>; what it has written before stays written. The text of the message is
  shortened: the engine's names the value and the property read.
\<close>

definition onSuccess :: "jsval \<Rightarrow> panel \<Rightarrow> js_error option \<times> panel" where
  "onSuccess d st =
     (let updatedTherapist = js_or (opt_member d ''data'') d;
          st1 = setQueryData (therapistId st) updatedTherapist st
      in if nullish updatedTherapist
         then (Some (TypeError ''Cannot read properties of null or undefined''), st1)
         else
           (let st2 = (if truthy (get_prop updatedTherapist ''image_path'')
                       then st1\<lparr>imagePreview :=
                              JStr (to_string (get_prop updatedTherapist ''image_path''))\<rparr>
                       else st1);
                st3 = st2\<lparr>initialValues := form_values st2\<rparr>
            in if nullish d
               then (Some (TypeError ''Cannot read properties of null or undefined''), st3)
               else
                 (let st4 = toast_success
                              (js_or (get_prop d ''message'') (JStr ''Profile updated successfully''))
                              st3
                  in (None, invalidateQueries (therapistId st) st4))))"

text \<open>
  \<^verbatim>\<open>
  onError: (error) => {
    toast.error(error.response?.data?.error || error.message || 'Failed to update profile', {...});
  }
  \<close>
\<close>

definition onError :: "js_error \<Rightarrow> panel \<Rightarrow> panel" where
  "onError error st =
     toast_error
       (js_or (js_or (error_response_data_error error) (JStr (error_message error)))
          (JStr ''Failed to update profile''))
       st"

text \<open>
  One submission, \<^verbatim>\<open>updateTherapist.mutate(d)\<close>: the mutation function runs, then
  \<^verbatim>\<open>onSuccess\<close> with what it returned, or \<^verbatim>\<open>onError\<close> with what it threw; an error thrown by
  \<^verbatim>\<open>onSuccess\<close> goes to \<^verbatim>\<open>onError\<close> as well. The result says whether the submission failed.
\<close>

definition mutate ::
    "server \<Rightarrow> (string \<rightharpoonup> string) \<Rightarrow> fields \<Rightarrow> panel \<Rightarrow> (js_error + jsval) \<times> panel" where
  "mutate server localStorage d st =
     (case mutationFn server localStorage d st of
        (Inl error, st1) \<Rightarrow> (Inl error, onError error st1)
      | (Inr r, st1) \<Rightarrow>
          (case onSuccess r st1 of
             (None, st2) \<Rightarrow> (Inr r, st2)
           | (Some error, st2) \<Rightarrow> (Inl error, onError error st2)))"

section \<open>The query and the events of the panel\<close>

text \<open>
  \<^verbatim>\<open>useQuery({ queryKey: ['therapist', therapistId], queryFn, enabled: !!therapistId, retry: 1 })\<close>.
  The query library runs \<^verbatim>\<open>queryFn\<close> when the query is enabled and its entry has no result
  yet or has been marked out of date; a failed run is repeated once. A run that succeeds
  stores the record; a run that fails keeps the data and records the error.
\<close>

definition store_result :: "jsval \<Rightarrow> js_error + jsval \<Rightarrow> panel \<Rightarrow> panel" where
  "store_result k r st =
     (case r of
        Inr d \<Rightarrow>
          st\<lparr>queries := (queries st)
            (k := \<lparr>q_data = d, q_status = Success, q_error = None, q_invalidated = False\<rparr>)\<rparr>
      | Inl e \<Rightarrow>
          st\<lparr>queries := (queries st)
            (k := (queries st k)\<lparr>q_status := Failed, q_error := Some e, q_invalidated := False\<rparr>)\<rparr>)"

definition fetch_query :: "server \<Rightarrow> panel \<Rightarrow> panel" where
  "fetch_query server st =
     (case queryFn server st of
        (Inr d, st1) \<Rightarrow> store_result (therapistId st) (Inr d) st1
      | (Inl e, st1) \<Rightarrow>
          (case queryFn server st1 of (r, st2) \<Rightarrow> store_result (therapistId st) r st2))"

definition enabled :: "panel \<Rightarrow> bool" where
  "enabled st = truthy (therapistId st)"

definition useQuery_step :: "server \<Rightarrow> panel \<Rightarrow> panel" where
  "useQuery_step server st =
     (let q = queries st (therapistId st) in
      if enabled st \<and> (q_status q = Pending \<or> q_invalidated q) then fetch_query server st
      else st)"

text \<open>
  The dependency list \<^verbatim>\<open>[therapist, form]\<close> of the effect that fills the form: the effect
  runs again when \<^verbatim>\<open>therapist\<close> is not the same value (\<^verbatim>\<open>Object.is\<close>) as at its last run.
\<close>

definition same_value :: "jsval \<Rightarrow> jsval \<Rightarrow> bool" where
  "same_value a b = (if a = JNaN then b = JNaN else strict_eq a b)"

definition populate_effect :: "panel \<Rightarrow> panel" where
  "populate_effect st =
     (if same_value (therapist st) (populated_for st) then st
      else (populate_form (therapist st) st)\<lparr>populated_for := therapist st\<rparr>)"

text \<open>
  What can happen to the mounted panel as the source wires it: a render (the query is
  looked at, then the effects run), a change of the file input, and a blur of one of the
  text inputs, which calls \<^verbatim>\<open>handleFieldChange(name, field.value)\<close>. Nothing in the
  source calls \<^verbatim>\<open>updateTherapist.mutate\<close> or \<^verbatim>\<open>refetch\<close>.
\<close>

datatype event = Render | ImageChange "js_file option" | FieldBlur string

definition step :: "server \<Rightarrow> (js_file \<Rightarrow> string) \<Rightarrow> event \<Rightarrow> panel \<Rightarrow> panel" where
  "step server createObjectURL ev st =
     (case ev of
        Render \<Rightarrow> populate_effect (useQuery_step server st)
      | ImageChange file \<Rightarrow> handleImageChange createObjectURL file st
      | FieldBlur fieldName \<Rightarrow> handleFieldChange fieldName (own_prop (form_values st) fieldName) st)"

fun run :: "server \<Rightarrow> (js_file \<Rightarrow> string) \<Rightarrow> event list \<Rightarrow> panel \<Rightarrow> panel" where
  "run server createObjectURL [] st = st"
| "run server createObjectURL (ev # evs) st =
     run server createObjectURL evs (step server createObjectURL ev st)"

text \<open>
  A panel whose identifier was never set and whose query never ran: no request has been
  issued and every entry of the cache is as it was at the start.
\<close>

definition idle :: "panel \<Rightarrow> bool" where
  "idle st = (therapistId st = JNull \<and> requests st = [] \<and> queries st = (\<lambda>k. initial_query))"

section \<open>Validation of the work start year\<close>

text \<open>
  \<^verbatim>\<open>
  rules={{
    required: 'Work start year is required',
    pattern: { value: /^\d{4}$/, message: 'Enter a valid 4-digit year' },
    validate: (value) => parseInt(value) <= new Date().getFullYear()
                         || 'Work start year cannot be in the future',
  }}
  \<close>
  The value of the field is a string. The current year, \<^verbatim>\<open>new Date().getFullYear()\<close>, is a
  parameter.
\<close>

definition is_digit :: "char \<Rightarrow> bool" where
  "is_digit c = (48 \<le> (of_char c :: nat) \<and> (of_char c :: nat) \<le> 57)"

text \<open>\<^verbatim>\<open>/^\d{4}$/.test(v)\<close>\<close>

definition pattern_4_digits :: "string \<Rightarrow> bool" where
  "pattern_4_digits v = (length v = 4 \<and> list_all is_digit v)"

text \<open>
  \<^verbatim>\<open>parseInt(str)\<close>: leading white space is skipped, then a sign, then the prefix
  \<^verbatim>\<open>0x\<close> or \<^verbatim>\<open>0X\<close> of a hexadecimal numeral; the digits that follow are read up to the
  first character that is not a digit of the radix. \<open>None\<close> is \<^verbatim>\<open>NaN\<close>. The white space is
  that of ASCII; the other white space of Unicode, which JavaScript skips as well, is not.
\<close>

definition is_space :: "char \<Rightarrow> bool" where
  "is_space c = ((of_char c :: nat) \<in> set [9, 10, 11, 12, 13, 32])"

definition digit_of :: "char \<Rightarrow> nat option" where
  "digit_of c =
     (let n = (of_char c :: nat) in
      if 48 \<le> n \<and> n \<le> 57 then Some (n - 48)
      else if 97 \<le> n \<and> n \<le> 122 then Some (n - 87)
      else if 65 \<le> n \<and> n \<le> 90 then Some (n - 55)
      else None)"

definition in_radix :: "nat \<Rightarrow> char \<Rightarrow> bool" where
  "in_radix r c = (case digit_of c of None \<Rightarrow> False | Some d \<Rightarrow> d < r)"

definition digits_value :: "nat \<Rightarrow> string \<Rightarrow> nat" where
  "digits_value r ds = foldl (\<lambda>a c. a * r + (case digit_of c of None \<Rightarrow> 0 | Some d \<Rightarrow> d)) 0 ds"

definition parseInt :: "string \<Rightarrow> int option" where
  "parseInt str =
     (let s1 = dropWhile is_space str;
          negative = is_prefix ''-'' s1;
          s2 = (if is_prefix ''-'' s1 \<or> is_prefix ''+'' s1 then drop 1 s1 else s1);
          hex = (is_prefix ''0x'' s2 \<or> is_prefix ''0X'' s2);
          radix = (if hex then 16 else 10);
          s3 = (if hex then drop 2 s2 else s2);
          ds = takeWhile (in_radix radix) s3
      in if ds = [] then None
         else Some ((if negative then - 1 else 1) * int (digits_value radix ds)))"

text \<open>The \<^verbatim>\<open>validate\<close> rule: \<open>None\<close> when it returns \<^verbatim>\<open>true\<close>, otherwise its message.\<close>

definition validate_year :: "int \<Rightarrow> string \<Rightarrow> string option" where
  "validate_year currentYear v =
     (case parseInt v of
        Some n \<Rightarrow>
          if n \<le> currentYear then None else Some ''Work start year cannot be in the future''
      | None \<Rightarrow> Some ''Work start year cannot be in the future'')"

text \<open>
  The form library checks \<^verbatim>\<open>required\<close>, then \<^verbatim>\<open>pattern\<close>, then \<^verbatim>\<open>validate\<close>, and reports the
  first rule that fails: \<open>None\<close> when the value passes, otherwise the message of that rule.
\<close>

definition work_start_year_rules :: "int \<Rightarrow> string \<Rightarrow> string option" where
  "work_start_year_rules currentYear v =
     (if v = [] then Some ''Work start year is required''
      else if \<not> pattern_4_digits v then Some ''Enter a valid 4-digit year''
      else validate_year currentYear v)"

text \<open>
  The integer that a string of decimal digits denotes, for stating what the rules accept.
\<close>

definition decimal_value :: "string \<Rightarrow> int" where
  "decimal_value v = foldl (\<lambda>a c. 10 * a + (int (of_char c) - 48)) 0 v"

section \<open>Properties\<close>

lemma hasChanges_loop_iff:
  "hasChanges_loop keys current initial =
     (\<exists>key \<in> set keys. \<not> strict_eq (own_prop current key) (own_prop initial key))"
  by (induction keys) auto

text \<open>
  Claim C9. When every field of \<open>current\<close> is strictly equal (\<^verbatim>\<open>===\<close>, so objects and files
  by identity) to the field of the same name of \<open>initial\<close>, \<open>hasChanges current initial\<close>
  is false.
\<close>

theorem hasChanges_all_equal:
  assumes "\<forall>key \<in> set (object_keys current).
             strict_eq (own_prop current key) (own_prop initial key)"
  shows "\<not> hasChanges current initial"
  using assms by (simp add: hasChanges_def hasChanges_loop_iff)

theorem hasChanges_all_equal_witness:
  "hasChanges [(''email'', JStr ''a@b.com'')] [(''email'', JStr ''a@b.com'')] = False"
  using hasChanges_all_equal [of "[(''email'', JStr ''a@b.com'')]" "[(''email'', JStr ''a@b.com'')]"]
  by (simp add: object_keys_def own_prop_def)

subsection \<open>Identity resolver\<close>

text \<open>
  Claim C3. When the stored token decodes to a payload whose \<^verbatim>\<open>therapist_id\<close> is a valid
  identifier (a value that \<^verbatim>\<open>if\<close> takes as true: a number other than 0, a string other than
  the empty one), the resolved identifier is that value. When no token is stored, and when
  decoding the stored token throws, the resolved identifier is the fallback 35.
\<close>

theorem therapistId_effect_resolves:
  "(localStorage ''therapyToken'' = Some token \<and> token \<noteq> [] \<and>
      jwtDecode (JStr token) = Inr decoded \<and> truthy (opt_member decoded ''therapist_id'')
      \<longrightarrow> therapistId (therapistId_effect jwtDecode localStorage st)
            = opt_member decoded ''therapist_id'')
   \<and> (localStorage ''therapyToken'' = None
      \<longrightarrow> therapistId (therapistId_effect jwtDecode localStorage st) = JNum 35)
   \<and> (localStorage ''therapyToken'' = Some token \<and> jwtDecode (JStr token) = Inl e
      \<longrightarrow> therapistId (therapistId_effect jwtDecode localStorage st) = JNum 35)"
  by (auto simp: therapistId_effect_def getItem_def opt_member_def Let_def split: if_splits)

theorem therapistId_effect_resolves_witness:
  "therapistId (therapistId_effect
      (\<lambda>t. if t = JStr ''good'' then Inr (JObj 1 [(''therapist_id'', JNum 7)])
            else Inl (Error ''Invalid token specified''))
      [''therapyToken'' \<mapsto> ''good''] initial_panel) = JNum 7
   \<and> therapistId (therapistId_effect
      (\<lambda>t. if t = JStr ''good'' then Inr (JObj 1 [(''therapist_id'', JNum 7)])
            else Inl (Error ''Invalid token specified''))
      Map.empty initial_panel) = JNum 35
   \<and> therapistId (therapistId_effect
      (\<lambda>t. if t = JStr ''good'' then Inr (JObj 1 [(''therapist_id'', JNum 7)])
            else Inl (Error ''Invalid token specified''))
      [''therapyToken'' \<mapsto> ''bad''] initial_panel) = JNum 35"
  using therapistId_effect_resolves [of "[''therapyToken'' \<mapsto> ''good'']" "''good''"
      "(\<lambda>t. if t = JStr ''good'' then Inr (JObj 1 [(''therapist_id'', JNum 7)])
            else Inl (Error ''Invalid token specified''))"
      "JObj 1 [(''therapist_id'', JNum 7)]" initial_panel]
    therapistId_effect_resolves [of Map.empty "''x''"
      "(\<lambda>t. if t = JStr ''good'' then Inr (JObj 1 [(''therapist_id'', JNum 7)])
            else Inl (Error ''Invalid token specified''))" JNull initial_panel]
    therapistId_effect_resolves [of "[''therapyToken'' \<mapsto> ''bad'']" "''bad''"
      "(\<lambda>t. if t = JStr ''good'' then Inr (JObj 1 [(''therapist_id'', JNum 7)])
            else Inl (Error ''Invalid token specified''))" JNull initial_panel
      "Error ''Invalid token specified''"]
  by (simp add: opt_member_def own_prop_def)

subsection \<open>Profile loader\<close>

text \<open>
  Claim C1, as stated, fails. The object \<^verbatim>\<open>{data: {full_name: 'A'}, full_name: 'B'}\<close> is
  returned as it is when it arrives wrapped; when it arrives bare, the loader returns its
  \<^verbatim>\<open>data\<close>, which is another object.
\<close>

theorem normalize_payload_shadowed_counterexample:
  "normalize_payload (JObj 0 [(''data'',
       JObj 1 [(''data'', JObj 2 [(''full_name'', JStr ''A'')]), (''full_name'', JStr ''B'')])])
     = Inr (JObj 1 [(''data'', JObj 2 [(''full_name'', JStr ''A'')]), (''full_name'', JStr ''B'')])
   \<and> normalize_payload
       (JObj 1 [(''data'', JObj 2 [(''full_name'', JStr ''A'')]), (''full_name'', JStr ''B'')])
     = Inr (JObj 2 [(''full_name'', JStr ''A'')])
   \<and> JObj 2 [(''full_name'', JStr ''A'')]
     \<noteq> JObj 1 [(''data'', JObj 2 [(''full_name'', JStr ''A'')]), (''full_name'', JStr ''B'')]"
  by (simp add: normalize_payload_def js_or_def opt_member_def own_prop_def)

text \<open>
  Claim C1, amended. For every payload \<open>P\<close> that is an object and has no \<^verbatim>\<open>data\<close> property
  that \<^verbatim>\<open>||\<close> takes as true, the normalization returns \<open>P\<close> both when it arrives wrapped
  under \<^verbatim>\<open>data\<close> and when it arrives bare.
\<close>

theorem normalize_payload_wrapped_or_bare:
  assumes "typeof P = ''object''" and "P \<noteq> JNull"
    and "\<not> truthy (get_prop P ''data'')"
    and "own_prop wrapper ''data'' = P"
  shows "normalize_payload (JObj j wrapper) = Inr P \<and> normalize_payload P = Inr P"
  using assms by (cases P) (auto simp: normalize_payload_def js_or_def opt_member_def Let_def)

theorem normalize_payload_wrapped_or_bare_witness:
  "normalize_payload (JObj 0 [(''data'', JObj 1 [(''full_name'', JStr ''A'')])])
     = Inr (JObj 1 [(''full_name'', JStr ''A'')])
   \<and> normalize_payload (JObj 1 [(''full_name'', JStr ''A'')])
     = Inr (JObj 1 [(''full_name'', JStr ''A'')])"
  using normalize_payload_wrapped_or_bare [of "JObj 1 [(''full_name'', JStr ''A'')]"
      "[(''data'', JObj 1 [(''full_name'', JStr ''A'')])]" 0]
  by (simp add: own_prop_def)

text \<open>
  Claim C4, as stated, fails: the status is looked at before the body, so a response with
  status 404 and an HTML body fails with the not-found error.
\<close>

theorem queryFn_not_found_html_counterexample:
  "fst (queryFn (\<lambda>h r. Reply 404 (JStr ''<!doctype html><html></html>'')) initial_panel)
     = Inl (Error ''Therapist profile not found'')
   \<and> \<not> invalid_response (Error ''Therapist profile not found'')"
  by (simp add: queryFn_def Let_def axios_request_def read_response_def invalid_response_def
      initial_panel_def)

text \<open>
  Claim C4, amended. When the answer to the loader's request has a string as its body, the
  loader returns no record, whatever the status, and when the status is below 500 and is
  not 404, the loader fails with one of the two invalid-response errors. When the status
  is 404, the loader fails with the not-found error, whatever the body.
\<close>

theorem queryFn_string_body:
  "(server (requests st) (profile_request st) = Reply status (JStr s)
      \<longrightarrow> (\<forall>record. fst (queryFn server st) \<noteq> Inr record)
        \<and> (status < 500 \<and> status \<noteq> 404
             \<longrightarrow> (\<exists>e. fst (queryFn server st) = Inl e \<and> invalid_response e)))
   \<and> (server (requests st) (profile_request st) = Reply 404 body
      \<longrightarrow> fst (queryFn server st) = Inl (Error ''Therapist profile not found''))"
  by (auto simp: queryFn_def Let_def axios_request_def read_response_def normalize_payload_def
      js_or_def opt_member_def invalid_response_def)

theorem queryFn_string_body_witness:
  "fst (queryFn (\<lambda>h r. Reply 200 (JStr ''<!DOCTYPE html><html></html>'')) initial_panel)
     = Inl (Error ''Invalid response format from server'')
   \<and> fst (queryFn (\<lambda>h r. Reply 200 (JStr ''<!doctype html><html></html>'')) initial_panel)
     = Inl (Error ''Invalid response: Received HTML from server'')
   \<and> fst (queryFn (\<lambda>h r. Reply 404 (JObj 1 [(''full_name'', JStr ''A'')])) initial_panel)
     = Inl (Error ''Therapist profile not found'')"
  using queryFn_string_body [of "\<lambda>h r. Reply 200 (JStr ''<!DOCTYPE html><html></html>'')"
      initial_panel 200 "''<!DOCTYPE html><html></html>''"]
    queryFn_string_body [of "\<lambda>h r. Reply 200 (JStr ''<!doctype html><html></html>'')"
      initial_panel 200 "''<!doctype html><html></html>''"]
    queryFn_string_body [of "\<lambda>h r. Reply 404 (JObj 1 [(''full_name'', JStr ''A'')])"
      initial_panel 404 "[]" "JObj 1 [(''full_name'', JStr ''A'')]"]
  by (simp add: queryFn_def Let_def axios_request_def read_response_def normalize_payload_def
      js_or_def opt_member_def invalid_response_def initial_panel_def)

subsection \<open>Image selection\<close>

text \<open>
  Claim C6. For a selected file, the handler rejects (it emits one error message and
  leaves the value of the image field and the preview as they were) exactly when the size
  is above \<open>5 * 1024 * 1024\<close> bytes or the type is none of \<^verbatim>\<open>image/png\<close>, \<^verbatim>\<open>image/jpg\<close>,
  \<^verbatim>\<open>image/jpeg\<close>, \<^verbatim>\<open>image/gif\<close>; otherwise the file becomes the value of the field and its
  object URL the preview, and no message is emitted.
\<close>

theorem handleImageChange_rejects_iff:
  "(((\<exists>m. toasts (handleImageChange createObjectURL (Some f) st) = toasts st @ [ToastError m])
      \<and> form_values (handleImageChange createObjectURL (Some f) st) = form_values st
      \<and> imagePreview (handleImageChange createObjectURL (Some f) st) = imagePreview st)
     = (size_file f > 5 * 1024 * 1024
        \<or> type_file f \<notin> {''image/png'', ''image/jpg'', ''image/jpeg'', ''image/gif''}))
   \<and> (size_file f \<le> 5 * 1024 * 1024
        \<and> type_file f \<in> {''image/png'', ''image/jpg'', ''image/jpeg'', ''image/gif''}
      \<longrightarrow> handleImageChange createObjectURL (Some f) st
          = st\<lparr>form_values := set_field ''image'' (JFile f) (form_values st),
                imagePreview := JStr (createObjectURL f)\<rparr>)"
  by (auto simp: handleImageChange_def toast_error_def)

theorem handleImageChange_rejects_iff_witness:
  "handleImageChange (\<lambda>f. ''blob:1'') (Some \<lparr>file_id = 1, size_file = 5242880, type_file = ''image/gif''\<rparr>)
       initial_panel
     = initial_panel\<lparr>form_values := set_field ''image''
           (JFile \<lparr>file_id = 1, size_file = 5242880, type_file = ''image/gif''\<rparr>)
           (form_values initial_panel),
         imagePreview := JStr ''blob:1''\<rparr>
   \<and> toasts (handleImageChange (\<lambda>f. ''blob:1'')
         (Some \<lparr>file_id = 1, size_file = 5242881, type_file = ''image/gif''\<rparr>) initial_panel)
     = [ToastError (JStr ''Image size must be less than 5MB'')]
   \<and> toasts (handleImageChange (\<lambda>f. ''blob:1'')
         (Some \<lparr>file_id = 1, size_file = 100, type_file = ''image/webp''\<rparr>) initial_panel)
     = [ToastError (JStr ''Only PNG, JPG, JPEG, and GIF images are allowed'')]"
  using handleImageChange_rejects_iff [of "\<lambda>f. ''blob:1''"
      "\<lparr>file_id = 1, size_file = 5242880, type_file = ''image/gif''\<rparr>" initial_panel]
  by (simp add: handleImageChange_def toast_error_def initial_panel_def)

subsection \<open>Validation of the work start year\<close>

lemma is_digit_facts:
  assumes "is_digit c"
  shows "\<not> is_space c" and "c \<noteq> CHR ''-''" and "c \<noteq> CHR ''+''"
    and "c \<noteq> CHR ''x''" and "c \<noteq> CHR ''X''"
    and "digit_of c = Some (of_char c - 48)" and "in_radix 10 c"
    and "48 \<le> (of_char c :: nat)"
  using assms by (auto simp: is_digit_def is_space_def digit_of_def in_radix_def Let_def)

lemma parseInt_digits:
  assumes da: "is_digit a" and db: "is_digit b" and dc: "is_digit c" and dd: "is_digit d"
  shows "parseInt [a, b, c, d] = Some (decimal_value [a, b, c, d])"
proof -
  note fa = is_digit_facts [OF da] and fb = is_digit_facts [OF db]
    and fc = is_digit_facts [OF dc] and fd = is_digit_facts [OF dd]
  have s1: "dropWhile is_space [a, b, c, d] = [a, b, c, d]" using fa(1) by simp
  have np: "is_prefix ''-'' [a, b, c, d] = False" "is_prefix ''+'' [a, b, c, d] = False"
    "is_prefix ''0x'' [a, b, c, d] = False" "is_prefix ''0X'' [a, b, c, d] = False"
    using fa(2,3) fb(4,5) by auto
  have tw: "takeWhile (in_radix 10) [a, b, c, d] = [a, b, c, d]"
    using fa(7) fb(7) fc(7) fd(7) by simp
  have val: "int (digits_value 10 [a, b, c, d]) = decimal_value [a, b, c, d]"
    using fa(6,8) fb(6,8) fc(6,8) fd(6,8)
    by (simp add: digits_value_def decimal_value_def of_nat_diff)
  have "parseInt [a, b, c, d] = Some (1 * int (digits_value 10 [a, b, c, d]))"
    by (simp add: parseInt_def Let_def s1 np tw
        del: is_prefix.simps takeWhile.simps dropWhile.simps)
  then show ?thesis by (simp add: val)
qed

lemma parseInt_4_digits:
  assumes "pattern_4_digits v"
  shows "parseInt v = Some (decimal_value v)"
proof -
  from assms obtain a b c d where v: "v = [a, b, c, d]"
    and da: "is_digit a" and db: "is_digit b" and dc: "is_digit c" and dd: "is_digit d"
    by (auto simp: pattern_4_digits_def length_Suc_conv numeral_eq_Suc)
  show ?thesis unfolding v by (rule parseInt_digits [OF da db dc dd])
qed

text \<open>
  Claim C7. With the current year 2025, the value \<^verbatim>\<open>2031\<close> fails with the future-year
  message, \<^verbatim>\<open>abcd\<close> fails with the message of the 4-digit pattern, and \<^verbatim>\<open>1999\<close> passes.
  A value passes exactly when it is not empty, matches the pattern, and denotes an integer
  that is at most the current year.
\<close>

theorem work_start_year_rules_spec:
  "work_start_year_rules 2025 ''2031'' = Some ''Work start year cannot be in the future''
   \<and> work_start_year_rules 2025 ''abcd'' = Some ''Enter a valid 4-digit year''
   \<and> work_start_year_rules 2025 ''1999'' = None
   \<and> (work_start_year_rules currentYear v = None)
       = (v \<noteq> [] \<and> pattern_4_digits v \<and> decimal_value v \<le> currentYear)"
proof -
  have g: "(work_start_year_rules y w = None)
       = (w \<noteq> [] \<and> pattern_4_digits w \<and> decimal_value w \<le> y)" for y w
    by (auto simp: work_start_year_rules_def validate_year_def parseInt_4_digits)
  have p1: "pattern_4_digits ''2031''" and p2: "\<not> pattern_4_digits ''abcd''"
    and p3: "pattern_4_digits ''1999''"
    by (simp_all add: pattern_4_digits_def is_digit_def)
  have v1: "decimal_value ''2031'' = 2031" and v3: "decimal_value ''1999'' = 1999"
    by (simp_all add: decimal_value_def)
  have "work_start_year_rules 2025 ''2031'' = Some ''Work start year cannot be in the future''"
    using p1 v1 by (simp add: work_start_year_rules_def validate_year_def parseInt_4_digits)
  moreover have "work_start_year_rules 2025 ''abcd'' = Some ''Enter a valid 4-digit year''"
    using p2 by (simp add: work_start_year_rules_def)
  moreover have "work_start_year_rules 2025 ''1999'' = None"
    using p3 v3 by (simp add: g)
  ultimately show ?thesis using g by blast
qed

theorem work_start_year_rules_spec_witness:
  "work_start_year_rules 2025 ''2025'' = None
   \<and> work_start_year_rules 2025 ''2026'' \<noteq> None
   \<and> work_start_year_rules 2025 ''20'' \<noteq> None"
  using work_start_year_rules_spec [of 2025 "''2025''"] work_start_year_rules_spec [of 2025 "''2026''"]
    work_start_year_rules_spec [of 2025 "''20''"]
  by (simp add: pattern_4_digits_def is_digit_def decimal_value_def)

subsection \<open>Form population and the preview\<close>

text \<open>
  Claim C5, as stated, fails, in two ways. An \<^verbatim>\<open>image_path\<close> that is the empty string is
  not resolved at all: the load sets no preview and the success handler leaves the preview
  it found. And the preview that the success handler sets does not last: the handler has
  put the updated record into the cache, so the next render runs the effect that fills the
  form on it, and the preview ends with the base address in front.
\<close>

theorem image_preview_counterexample:
  "imagePreview (populate_form (JObj 1 [(''image_path'', JStr [])]) initial_panel) = JNull
   \<and> JNull \<noteq> JStr (baseURL @ ''/'' @ [])
   \<and> imagePreview (snd (onSuccess (JObj 2 [(''data'', JObj 1 [(''image_path'', JStr [])])])
        (initial_panel\<lparr>therapistId := JNum 7\<rparr>))) = JNull
   \<and> JNull \<noteq> JStr []
   \<and> imagePreview (step (\<lambda>h r. Reply 200 (JObj 1 [(''image_path'', JStr ''uploads/a.png'')]))
        (\<lambda>f. ''blob:1'') Render
        (snd (onSuccess (JObj 2 [(''data'', JObj 1 [(''image_path'', JStr ''uploads/a.png'')])])
          (initial_panel\<lparr>therapistId := JNum 7\<rparr>))))
     = JStr ''http://localhost:5000/uploads/a.png''
   \<and> JStr ''http://localhost:5000/uploads/a.png'' \<noteq> JStr ''uploads/a.png''"
  by (simp add: populate_form_def onSuccess_def Let_def js_or_def opt_member_def own_prop_def
      setQueryData_def toast_success_def invalidateQueries_def initial_panel_def step_def
      useQuery_step_def enabled_def fetch_query_def queryFn_def profile_request_def
      axios_request_def read_response_def normalize_payload_def store_result_def
      populate_effect_def same_value_def therapist_def)

lemma onSuccess_then_effect:
  assumes a: "get_prop (js_or (opt_member d ''data'') d) ''image_path'' = JStr p"
    and p: "p \<noteq> []"
    and c: "\<not> same_value (js_or (opt_member d ''data'') d) (populated_for st)"
  shows "imagePreview (populate_effect (snd (onSuccess d st))) = JStr (baseURL @ ''/'' @ p)"
proof -
  let ?u = "js_or (opt_member d ''data'') d"
  from a have n: "\<not> nullish ?u" by (cases ?u) auto
  then have nd: "\<not> nullish d" by (cases d) (auto simp: js_or_def opt_member_def)
  from a have t: "truthy ?u" by (cases ?u) auto
  from n have u: "?u \<noteq> JUndefined" by auto
  have th: "therapist (snd (onSuccess d st)) = ?u"
    using n nd u
    by (simp add: onSuccess_def Let_def setQueryData_def toast_success_def
        invalidateQueries_def therapist_def)
  have pf: "populated_for (snd (onSuccess d st)) = populated_for st"
    using n nd
    by (simp add: onSuccess_def Let_def setQueryData_def toast_success_def invalidateQueries_def)
  show ?thesis
    using c t a p by (simp add: populate_effect_def th pf populate_form_def Let_def baseURL_def)
qed

text \<open>
  Claim C5, amended. Let the path \<open>p\<close> be a string that is not empty. The effect that
  fills the form from a record whose \<^verbatim>\<open>image_path\<close> is \<open>p\<close> sets the preview to the base
  address, a slash and \<open>p\<close>. The success handler of an update whose returned record has the
  \<^verbatim>\<open>image_path\<close> \<open>p\<close> sets the preview to \<open>p\<close> without a prefix; that is the preview when
  the handler returns. When the effect that fills the form then runs on the state the
  handler left, the returned record not being the value the effect last ran on, the
  preview becomes the base address, a slash and \<open>p\<close>.
\<close>

theorem image_path_prefixed_on_load_bare_on_update:
  assumes "p \<noteq> []"
  shows "(get_prop t ''image_path'' = JStr p
            \<longrightarrow> imagePreview (populate_form t st) = JStr (baseURL @ ''/'' @ p))
       \<and> (get_prop (js_or (opt_member d ''data'') d) ''image_path'' = JStr p
            \<longrightarrow> imagePreview (snd (onSuccess d st)) = JStr p)
       \<and> (get_prop (js_or (opt_member d ''data'') d) ''image_path'' = JStr p
          \<and> \<not> same_value (js_or (opt_member d ''data'') d) (populated_for st)
            \<longrightarrow> imagePreview (populate_effect (snd (onSuccess d st)))
                  = JStr (baseURL @ ''/'' @ p))"
proof (intro conjI impI)
  assume a: "get_prop t ''image_path'' = JStr p"
  then have "truthy t" by (cases t) auto
  with a assms show "imagePreview (populate_form t st) = JStr (baseURL @ ''/'' @ p)"
    by (simp add: populate_form_def Let_def baseURL_def)
next
  assume a: "get_prop (js_or (opt_member d ''data'') d) ''image_path'' = JStr p"
  then have n: "\<not> nullish (js_or (opt_member d ''data'') d)"
    by (cases "js_or (opt_member d ''data'') d") auto
  then have nd: "\<not> nullish d"
    by (cases d) (auto simp: js_or_def opt_member_def)
  from a n nd assms show "imagePreview (snd (onSuccess d st)) = JStr p"
    by (simp add: onSuccess_def Let_def setQueryData_def toast_success_def invalidateQueries_def)
next
  assume "get_prop (js_or (opt_member d ''data'') d) ''image_path'' = JStr p
          \<and> \<not> same_value (js_or (opt_member d ''data'') d) (populated_for st)"
  then show "imagePreview (populate_effect (snd (onSuccess d st))) = JStr (baseURL @ ''/'' @ p)"
    using assms by (simp add: onSuccess_then_effect)
qed

theorem image_path_prefixed_on_load_bare_on_update_witness:
  "imagePreview (populate_form (JObj 1 [(''image_path'', JStr ''uploads/a.png'')]) initial_panel)
     = JStr ''http://localhost:5000/uploads/a.png''
   \<and> imagePreview (snd (onSuccess (JObj 2 [(''data'', JObj 1 [(''image_path'', JStr ''uploads/a.png'')])])
       initial_panel)) = JStr ''uploads/a.png''
   \<and> imagePreview (populate_effect
       (snd (onSuccess (JObj 2 [(''data'', JObj 1 [(''image_path'', JStr ''uploads/a.png'')])])
         initial_panel))) = JStr ''http://localhost:5000/uploads/a.png''"
  using image_path_prefixed_on_load_bare_on_update [of "''uploads/a.png''"
      "JObj 1 [(''image_path'', JStr ''uploads/a.png'')]" initial_panel
      "JObj 2 [(''data'', JObj 1 [(''image_path'', JStr ''uploads/a.png'')])]"]
  by (simp add: own_prop_def js_or_def opt_member_def baseURL_def same_value_def
      initial_panel_def)

subsection \<open>Profile updater\<close>

lemma onSuccess_result:
  assumes "\<not> nullish d" and "u = js_or (opt_member d ''data'') d" and "\<not> nullish u"
  shows "fst (onSuccess d st) = None"
    and "q_data (queries (snd (onSuccess d st)) (therapistId st)) = u"
    and "initialValues (snd (onSuccess d st)) = form_values st"
    and "form_values (snd (onSuccess d st)) = form_values st"
  using assms
  by (auto simp: onSuccess_def Let_def setQueryData_def toast_success_def invalidateQueries_def)

text \<open>
  Claim C2, as stated, fails. The body \<^verbatim>\<open>{data: {full_name: 'A'}, nic_number: 'X'}\<close>,
  taken as a bare record, is not what the handler stores: it stores the \<^verbatim>\<open>data\<close> of the
  body, and the cache entry has no \<^verbatim>\<open>nic_number\<close>.
\<close>

theorem onSuccess_bare_shadowed_counterexample:
  "q_data (queries (snd (onSuccess
       (JObj 1 [(''data'', JObj 2 [(''full_name'', JStr ''A'')]), (''nic_number'', JStr ''X'')])
       (initial_panel\<lparr>therapistId := JNum 7\<rparr>))) (JNum 7))
     = JObj 2 [(''full_name'', JStr ''A'')]
   \<and> JObj 2 [(''full_name'', JStr ''A'')]
     \<noteq> JObj 1 [(''data'', JObj 2 [(''full_name'', JStr ''A'')]), (''nic_number'', JStr ''X'')]
   \<and> get_prop (q_data (queries (snd (onSuccess
       (JObj 1 [(''data'', JObj 2 [(''full_name'', JStr ''A'')]), (''nic_number'', JStr ''X'')])
       (initial_panel\<lparr>therapistId := JNum 7\<rparr>))) (JNum 7))) ''nic_number'' \<noteq> JStr ''X''"
  by (simp add: onSuccess_def Let_def js_or_def opt_member_def own_prop_def setQueryData_def
      toast_success_def invalidateQueries_def initial_panel_def)

text \<open>
  Claim C2, amended. Let \<open>R\<close> be an object. When the body of the response is an object
  whose \<^verbatim>\<open>data\<close> is \<open>R\<close>, and when the body is \<open>R\<close> itself and \<open>R\<close> has no \<^verbatim>\<open>data\<close> that
  \<^verbatim>\<open>||\<close> takes as true, the success handler completes without throwing, the cache entry of
  the current identifier holds \<open>R\<close>, and the snapshot \<^verbatim>\<open>initialValues\<close> is the current
  values of the form, which the handler leaves as they are.
\<close>

theorem onSuccess_updates_cache_and_snapshot:
  assumes "typeof R = ''object''" and "R \<noteq> JNull"
  shows "(own_prop body ''data'' = R
            \<longrightarrow> fst (onSuccess (JObj j body) st) = None
              \<and> q_data (queries (snd (onSuccess (JObj j body) st)) (therapistId st)) = R
              \<and> initialValues (snd (onSuccess (JObj j body) st)) = form_values st
              \<and> form_values (snd (onSuccess (JObj j body) st)) = form_values st)
       \<and> (\<not> truthy (get_prop R ''data'')
            \<longrightarrow> fst (onSuccess R st) = None
              \<and> q_data (queries (snd (onSuccess R st)) (therapistId st)) = R
              \<and> initialValues (snd (onSuccess R st)) = form_values st
              \<and> form_values (snd (onSuccess R st)) = form_values st)"
proof -
  from assms have t: "truthy R" and n: "\<not> nullish R" by (cases R; simp)+
  show ?thesis
  proof (intro conjI impI)
    assume b: "own_prop body ''data'' = R"
    have u: "R = js_or (opt_member (JObj j body) ''data'') (JObj j body)"
      using b t by (simp add: js_or_def opt_member_def)
    show "fst (onSuccess (JObj j body) st) = None"
      and "q_data (queries (snd (onSuccess (JObj j body) st)) (therapistId st)) = R"
      and "initialValues (snd (onSuccess (JObj j body) st)) = form_values st"
      and "form_values (snd (onSuccess (JObj j body) st)) = form_values st"
      using onSuccess_result [OF _ u n, of st] by simp_all
  next
    assume b: "\<not> truthy (get_prop R ''data'')"
    have u: "R = js_or (opt_member R ''data'') R"
      using b n by (simp add: js_or_def opt_member_def)
    show "fst (onSuccess R st) = None"
      and "q_data (queries (snd (onSuccess R st)) (therapistId st)) = R"
      and "initialValues (snd (onSuccess R st)) = form_values st"
      and "form_values (snd (onSuccess R st)) = form_values st"
      using onSuccess_result [OF n u n, of st] by simp_all
  qed
qed

theorem onSuccess_updates_cache_and_snapshot_witness:
  "get_prop (q_data (queries (snd (onSuccess
       (JObj 2 [(''data'', JObj 1 [(''full_name'', JStr ''A''), (''nic_number'', JStr ''X'')])])
       (initial_panel\<lparr>therapistId := JNum 7\<rparr>))) (JNum 7))) ''nic_number'' = JStr ''X''
   \<and> initialValues (snd (onSuccess
       (JObj 2 [(''data'', JObj 1 [(''full_name'', JStr ''A''), (''nic_number'', JStr ''X'')])])
       (initial_panel\<lparr>therapistId := JNum 7\<rparr>))) = form_values initial_panel
   \<and> get_prop (q_data (queries (snd (onSuccess
       (JObj 1 [(''full_name'', JStr ''A''), (''nic_number'', JStr ''X'')])
       (initial_panel\<lparr>therapistId := JNum 7\<rparr>))) (JNum 7))) ''nic_number'' = JStr ''X''"
  using onSuccess_updates_cache_and_snapshot
      [of "JObj 1 [(''full_name'', JStr ''A''), (''nic_number'', JStr ''X'')]"
          "[(''data'', JObj 1 [(''full_name'', JStr ''A''), (''nic_number'', JStr ''X'')])]"
          2 "initial_panel\<lparr>therapistId := JNum 7\<rparr>"]
  by (simp add: own_prop_def)

lemma onSuccess_throws:
  assumes "fst (onSuccess d st) = Some e"
  shows "toasts (snd (onSuccess d st)) = toasts st"
    and "form_values (snd (onSuccess d st)) = form_values st"
    and "initialValues (snd (onSuccess d st)) = initialValues st"
    and "requests (snd (onSuccess d st)) = requests st"
proof -
  have "nullish (js_or (opt_member d ''data'') d)"
  proof (rule ccontr)
    assume n: "\<not> nullish (js_or (opt_member d ''data'') d)"
    then have "\<not> nullish d" by (cases d) (auto simp: js_or_def opt_member_def)
    with n have "fst (onSuccess d st) = None" by (simp add: onSuccess_def Let_def)
    with assms show False by simp
  qed
  then show "toasts (snd (onSuccess d st)) = toasts st"
    and "form_values (snd (onSuccess d st)) = form_values st"
    and "initialValues (snd (onSuccess d st)) = initialValues st"
    and "requests (snd (onSuccess d st)) = requests st"
    by (simp_all add: onSuccess_def Let_def setQueryData_def)
qed

lemma mutationFn_keeps:
  "toasts (snd (mutationFn server localStorage d st)) = toasts st"
  "form_values (snd (mutationFn server localStorage d st)) = form_values st"
  "initialValues (snd (mutationFn server localStorage d st)) = initialValues st"
  by (auto simp: mutationFn_def Let_def split: sum.splits)

lemma onError_keeps:
  "toasts (onError e st) = toasts st @
     [ToastError (js_or (js_or (error_response_data_error e) (JStr (error_message e)))
        (JStr ''Failed to update profile''))]"
  "form_values (onError e st) = form_values st"
  "initialValues (onError e st) = initialValues st"
  "requests (onError e st) = requests st"
  by (simp_all add: onError_def toast_error_def)

lemma mutate_failed:
  assumes f: "fst (mutate server localStorage d st) = Inl e"
  shows "toasts (snd (mutate server localStorage d st))
            = toasts st @
              [ToastError (js_or (js_or (error_response_data_error e) (JStr (error_message e)))
                 (JStr ''Failed to update profile''))]
        \<and> form_values (snd (mutate server localStorage d st)) = form_values st
        \<and> initialValues (snd (mutate server localStorage d st)) = initialValues st"
proof -
  obtain r st1 where m: "mutationFn server localStorage d st = (r, st1)" by force
  have k: "toasts st1 = toasts st" "form_values st1 = form_values st"
    "initialValues st1 = initialValues st"
    using mutationFn_keeps [of server localStorage d st] by (simp_all add: m)
  show ?thesis
  proof (cases r)
    case (Inl e')
    with f m have "e' = e" by (simp add: mutate_def)
    with Inl m k show ?thesis by (simp add: mutate_def onError_keeps)
  next
    case (Inr v)
    obtain x st2 where s: "onSuccess v st1 = (x, st2)" by force
    show ?thesis
    proof (cases x)
      case None
      with f m Inr s show ?thesis by (simp add: mutate_def)
    next
      case (Some e')
      with f m Inr s have "e' = e" by (simp add: mutate_def)
      moreover have "toasts st2 = toasts st1" "form_values st2 = form_values st1"
        "initialValues st2 = initialValues st1"
        using onSuccess_throws [of v st1 e'] s Some by simp_all
      ultimately show ?thesis using Some m Inr s k by (simp add: mutate_def onError_keeps)
    qed
  qed
qed

lemma show_int_500: "show_int 500 = ''500''"
  by code_simp

text \<open>
  Claim C8. When no token is stored, a submission fails with the authentication error and
  issues no request. Whenever a submission fails, for this or any other reason, exactly one
  notification is emitted, an error notification with the most specific message at hand,
  and the values of the form and the snapshot stay as they were.
\<close>

theorem mutate_failure:
  "(localStorage ''therapyToken'' = None
      \<longrightarrow> fst (mutate server localStorage d st) = Inl (Error ''Authentication token missing'')
        \<and> requests (snd (mutate server localStorage d st)) = requests st)
   \<and> (fst (mutate server localStorage d st) = Inl e
      \<longrightarrow> toasts (snd (mutate server localStorage d st))
            = toasts st @
              [ToastError (js_or (js_or (error_response_data_error e) (JStr (error_message e)))
                 (JStr ''Failed to update profile''))]
        \<and> form_values (snd (mutate server localStorage d st)) = form_values st
        \<and> initialValues (snd (mutate server localStorage d st)) = initialValues st)"
proof (intro conjI impI)
  assume "localStorage ''therapyToken'' = None"
  then have m: "mutationFn server localStorage d st = (Inl (Error ''Authentication token missing''), st)"
    by (simp add: mutationFn_def getItem_def)
  show "fst (mutate server localStorage d st) = Inl (Error ''Authentication token missing'')"
    by (simp add: mutate_def m)
  show "requests (snd (mutate server localStorage d st)) = requests st"
    by (simp add: mutate_def m onError_keeps)
next
  assume f: "fst (mutate server localStorage d st) = Inl e"
  from mutate_failed [OF f]
  show "toasts (snd (mutate server localStorage d st))
            = toasts st @
              [ToastError (js_or (js_or (error_response_data_error e) (JStr (error_message e)))
                 (JStr ''Failed to update profile''))]"
    and "form_values (snd (mutate server localStorage d st)) = form_values st"
    and "initialValues (snd (mutate server localStorage d st)) = initialValues st"
    by simp_all
qed

theorem mutate_failure_witness:
  "fst (mutate (\<lambda>h r. Reply 200 JNull) Map.empty [(''email'', JStr ''a@b.com'')] initial_panel)
     = Inl (Error ''Authentication token missing'')
   \<and> requests (snd (mutate (\<lambda>h r. Reply 200 JNull) Map.empty [(''email'', JStr ''a@b.com'')]
        initial_panel)) = []
   \<and> toasts (snd (mutate (\<lambda>h r. Reply 200 JNull) Map.empty [(''email'', JStr ''a@b.com'')]
        initial_panel)) = [ToastError (JStr ''Authentication token missing'')]
   \<and> form_values (snd (mutate (\<lambda>h r. Reply 200 JNull) Map.empty [(''email'', JStr ''a@b.com'')]
        initial_panel)) = form_values initial_panel
   \<and> initialValues (snd (mutate (\<lambda>h r. Reply 200 JNull) Map.empty [(''email'', JStr ''a@b.com'')]
        initial_panel)) = initialValues initial_panel
   \<and> toasts (snd (mutate (\<lambda>h r. Reply 500 (JObj 1 [(''error'', JStr ''boom'')]))
        [''therapyToken'' \<mapsto> ''tok''] [(''email'', JStr ''a@b.com'')] initial_panel))
     = [ToastError (JStr ''boom'')]"
proof -
  have a: "fst (mutate (\<lambda>h r. Reply 500 (JObj 1 [(''error'', JStr ''boom'')]))
        [''therapyToken'' \<mapsto> ''tok''] [(''email'', JStr ''a@b.com'')] initial_panel)
      = Inl (AxiosError ''Request failed with status code 500''
          (Some \<lparr>resp_status = 500, resp_data = JObj 1 [(''error'', JStr ''boom'')]\<rparr>))"
    by (simp add: mutate_def mutationFn_def getItem_def Let_def axios_request_def show_int_500)
  show ?thesis
    using mutate_failure [of Map.empty "\<lambda>h r. Reply 200 JNull" "[(''email'', JStr ''a@b.com'')]"
        initial_panel "Error ''Authentication token missing''"]
      mutate_failure [of "[''therapyToken'' \<mapsto> ''tok'']"
        "\<lambda>h r. Reply 500 (JObj 1 [(''error'', JStr ''boom'')])" "[(''email'', JStr ''a@b.com'')]"
        initial_panel "AxiosError ''Request failed with status code 500''
          (Some \<lparr>resp_status = 500, resp_data = JObj 1 [(''error'', JStr ''boom'')]\<rparr>)"] a
    by (simp add: js_or_def opt_member_def own_prop_def initial_panel_def)
qed

subsection \<open>A token without the identifier claim\<close>

lemma step_idle: "idle st \<Longrightarrow> idle (step server cou ev st)"
  by (cases ev)
    (auto simp: idle_def step_def useQuery_step_def enabled_def populate_effect_def
      populate_form_def therapist_def initial_query_def handleImageChange_def toast_error_def
      handleFieldChange_def Let_def split: option.splits)

lemma run_idle: "idle st \<Longrightarrow> idle (run server cou evs st)"
  by (induction evs arbitrary: st) (simp_all add: step_idle)

text \<open>
  Claim C10. When the stored token decodes to a payload without \<^verbatim>\<open>therapist_id\<close>, the
  resolver leaves the identifier \<^verbatim>\<open>null\<close> (the fallback 35 is not used), the query is not
  enabled, and whatever happens to the panel afterwards, no request is issued and the query
  stays as it was at the start, without data.
\<close>

theorem no_claim_no_fetch:
  assumes "localStorage ''therapyToken'' = Some token" and "token \<noteq> []"
    and "jwtDecode (JStr token) = Inr decoded"
    and "opt_member decoded ''therapist_id'' = JUndefined"
  shows "therapistId (therapistId_effect jwtDecode localStorage initial_panel) = JNull
     \<and> therapistId (therapistId_effect jwtDecode localStorage initial_panel) \<noteq> JNum 35
     \<and> \<not> enabled (therapistId_effect jwtDecode localStorage initial_panel)
     \<and> requests (run server createObjectURL events
          (therapistId_effect jwtDecode localStorage initial_panel)) = []
     \<and> queries (run server createObjectURL events
          (therapistId_effect jwtDecode localStorage initial_panel)) = queries initial_panel
     \<and> therapist (run server createObjectURL events
          (therapistId_effect jwtDecode localStorage initial_panel)) = JUndefined"
proof -
  have e: "therapistId_effect jwtDecode localStorage initial_panel = initial_panel"
    using assms by (simp add: therapistId_effect_def getItem_def)
  have i: "idle initial_panel" by (simp add: idle_def initial_panel_def)
  have r: "idle (run server createObjectURL events initial_panel)" by (rule run_idle [OF i])
  from r have q: "therapistId (run server createObjectURL events initial_panel) = JNull"
    "requests (run server createObjectURL events initial_panel) = []"
    "queries (run server createObjectURL events initial_panel) = (\<lambda>k. initial_query)"
    by (simp_all add: idle_def)
  have p: "therapistId initial_panel = JNull" "queries initial_panel = (\<lambda>k. initial_query)"
    by (simp_all add: initial_panel_def)
  show ?thesis
    by (simp add: e q p enabled_def therapist_def initial_query_def)
qed

theorem no_claim_no_fetch_witness:
  "requests (run (\<lambda>h r. Reply 200 (JObj 9 [])) (\<lambda>f. ''blob:1'')
      [Render, FieldBlur ''email'', ImageChange None, Render]
      (therapistId_effect (\<lambda>t. Inr (JObj 1 [(''sub'', JStr ''u'')]))
         [''therapyToken'' \<mapsto> ''tok''] initial_panel)) = []
   \<and> therapistId (therapistId_effect (\<lambda>t. Inr (JObj 1 [(''sub'', JStr ''u'')]))
         [''therapyToken'' \<mapsto> ''tok''] initial_panel) = JNull"
  using no_claim_no_fetch [of "[''therapyToken'' \<mapsto> ''tok'']" "''tok''"
      "\<lambda>t. Inr (JObj 1 [(''sub'', JStr ''u'')])" "JObj 1 [(''sub'', JStr ''u'')]"
      "\<lambda>h r. Reply 200 (JObj 9 [])" "\<lambda>f. ''blob:1''"
      "[Render, FieldBlur ''email'', ImageChange None, Render]"]
  by (simp add: opt_member_def own_prop_def)

end
